theory Spec2Isabelle
  imports Main "HOL-Library.Sublist" "HOL-Library.AList"
    "HOL-Library.List_Lexorder" "HOL-Library.Char_ord"
begin

section \<open>Errors\<close>

text \<open>
  Exceptions that leave a function are values: a function that can raise returns
  \<open>error + 'a\<close>, with \<open>Inl\<close> for the exception. \<open>AdapterFault\<close> stands for whatever
  the ordering adapter (\<open>runner.sort.TestOrder\<close>) raises.
\<close>

datatype error =
  AttributeError | ValueError | TypeError | IndexError | JSONDecodeError | AdapterFault

section \<open>Python strings\<close>

text \<open>
  Python \<open>str\<close> values are modelled as \<open>string\<close>; \<open>str.startswith\<close> is the list
  predicate \<open>prefix\<close>.
\<close>

definition newline :: char where
  "newline = CHR 0x0A"

text \<open>\<open>s.split(d)\<close> for a one-character separator: never returns the empty list.\<close>

fun split_on :: "char \<Rightarrow> string \<Rightarrow> string list" where
  "split_on d [] = [[]]"
| "split_on d (c # cs) =
     (if c = d then [] # split_on d cs
      else (case split_on d cs of
              [] \<Rightarrow> [[c]]
            | l # ls \<Rightarrow> (c # l) # ls))"

text \<open>\<open>s.split("::")\<close>: the separator is matched from the left, without overlaps.\<close>

fun split_dcolon :: "string \<Rightarrow> string list" where
  "split_dcolon [] = [[]]"
| "split_dcolon [c] = [[c]]"
| "split_dcolon (c # d # cs) =
     (if c = CHR '':'' \<and> d = CHR '':'' then [] # split_dcolon cs
      else (case split_dcolon (d # cs) of
              [] \<Rightarrow> [[c]]
            | l # ls \<Rightarrow> (c # l) # ls))"

text \<open>\<open>sep.join(parts)\<close>.\<close>

fun join :: "string \<Rightarrow> string list \<Rightarrow> string" where
  "join sep [] = []"
| "join sep [p] = p"
| "join sep (p # q # ps) = p @ sep @ join sep (q # ps)"

text \<open>
  \<open>s.replace(old, new)\<close>: scans from the left and replaces non-overlapping occurrences
  of \<open>old\<close>. For the empty \<open>old\<close> Python inserts \<open>new\<close> before every character and at
  the end.
\<close>

function replace_str :: "string \<Rightarrow> string \<Rightarrow> string \<Rightarrow> string" where
  "replace_str old new [] = (if old = [] then new else [])"
| "replace_str old new (c # cs) =
     (if old = [] then new @ c # replace_str old new cs
      else if prefix old (c # cs)
           then new @ replace_str old new (drop (length old) (c # cs))
           else c # replace_str old new cs)"
  by pat_completeness auto
termination
  by (relation "measure (\<lambda>(old, new, s). length s)") auto

text \<open>
  A pattern no proper non-empty suffix of which is also a prefix of it: two occurrences
  of such a pattern in a text never overlap.
\<close>

definition border_free :: "string \<Rightarrow> bool" where
  "border_free p \<longleftrightarrow> p \<noteq> [] \<and> list_all (\<lambda>d. \<not> prefix (drop d p) p) [1..<length p]"

section \<open>Argument sanitizer\<close>

text \<open>
  \<^verbatim>\<open>
  def _sanitize_args(args):
      clean = []
      skip_next = False
      for arg in args:
          if skip_next:
              skip_next = False
              continue
          if arg == "--tb":
              skip_next = True
              continue
          elif arg.startswith("--tb="):
              continue
          clean.append(arg)
      clean.append("--tb=no")
      return clean
  \<close>
  The loop carries \<open>clean\<close> and \<open>skip_next\<close>.
\<close>

fun sanitize_loop :: "string list \<Rightarrow> bool \<Rightarrow> string list \<Rightarrow> string list" where
  "sanitize_loop clean skip_next [] = clean"
| "sanitize_loop clean skip_next (arg # args) =
     (if skip_next then sanitize_loop clean False args
      else if arg = ''--tb'' then sanitize_loop clean True args
      else if prefix ''--tb='' arg then sanitize_loop clean False args
      else sanitize_loop (clean @ [arg]) False args)"

definition sanitize_args :: "string list \<Rightarrow> string list" where
  "sanitize_args args = sanitize_loop [] False args @ [''--tb=no'']"

definition is_tb_flag :: "string \<Rightarrow> bool" where
  "is_tb_flag arg \<longleftrightarrow> arg = ''--tb'' \<or> prefix ''--tb='' arg"

section \<open>Diagnostic message formatter\<close>

subsection \<open>\<open>re.sub("^E ", "  ", text, flags=re.M)\<close>\<close>

text \<open>
  With \<open>re.M\<close> the anchor matches at the start of the text and after every newline, so
  the substitution acts on each line on its own: a line that starts with \<open>E\<close> and one
  space gets two spaces in their place.
\<close>

definition sub_marker_line :: "string \<Rightarrow> string" where
  "sub_marker_line l = (if prefix ''E '' l then ''  '' @ drop 2 l else l)"

definition sub_marker :: "string \<Rightarrow> string" where
  "sub_marker text = join [newline] (map sub_marker_line (split_on newline text))"

subsection \<open>\<open>textwrap.dedent\<close>\<close>

text \<open>
  The regular-expression implementation of the standard library:
  \<^verbatim>\<open>
  _whitespace_only_re = re.compile('^[ \t]+$', re.MULTILINE)
  _leading_whitespace_re = re.compile('(^[ \t]*)(?:[^ \t\n])', re.MULTILINE)

  def dedent(text):
      margin = None
      text = _whitespace_only_re.sub('', text)
      indents = _leading_whitespace_re.findall(text)
      for indent in indents:
          if margin is None:
              margin = indent
          elif indent.startswith(margin):
              pass
          elif margin.startswith(indent):
              margin = indent
          else:
              for i, (x, y) in enumerate(zip(margin, indent)):
                  if x != y:
                      margin = margin[:i]
                      break
      if margin:
          text = re.sub(r'(?m)^' + margin, '', text)
      return text
  \<close>
  Each of the three regular expressions is anchored at a line start, so each acts line
  by line.
\<close>

definition is_blank :: "char \<Rightarrow> bool" where
  "is_blank c \<longleftrightarrow> c = CHR '' '' \<or> c = CHR 0x09"

definition blank_line :: "string \<Rightarrow> string" where
  "blank_line l = (if l \<noteq> [] \<and> list_all is_blank l then [] else l)"

definition indents :: "string list \<Rightarrow> string list" where
  "indents ls = map (takeWhile is_blank) (filter (\<lambda>l. dropWhile is_blank l \<noteq> []) ls)"

text \<open>The inner \<open>for\<close> over \<open>zip(margin, indent)\<close>: cut \<open>margin\<close> at the first difference.\<close>

fun cut_at_diff :: "string \<Rightarrow> string \<Rightarrow> string" where
  "cut_at_diff (x # xs) (y # ys) = (if x \<noteq> y then [] else x # cut_at_diff xs ys)"
| "cut_at_diff margin [] = margin"
| "cut_at_diff [] indent = []"

fun margin_loop :: "string option \<Rightarrow> string list \<Rightarrow> string option" where
  "margin_loop margin [] = margin"
| "margin_loop None (indent # rest) = margin_loop (Some indent) rest"
| "margin_loop (Some margin) (indent # rest) =
     (if prefix margin indent then margin_loop (Some margin) rest
      else if prefix indent margin then margin_loop (Some indent) rest
      else margin_loop (Some (cut_at_diff margin indent)) rest)"

definition strip_margin :: "string \<Rightarrow> string \<Rightarrow> string" where
  "strip_margin margin l = (if prefix margin l then drop (length margin) l else l)"

definition dedent :: "string \<Rightarrow> string" where
  "dedent text =
     (let ls = map blank_line (split_on newline text) in
      case margin_loop None (indents ls) of
        None \<Rightarrow> join [newline] ls
      | Some margin \<Rightarrow>
          if margin \<noteq> [] then join [newline] (map (strip_margin margin) ls)
          else join [newline] ls)"

subsection \<open>\<open>os.path.commonpath\<close> of two POSIX paths\<close>

text \<open>
  \<^verbatim>\<open>
  split_paths = [path.split(sep) for path in paths]
  try:
      isabs, = set(p[:1] == sep for p in paths)
  except ValueError:
      raise ValueError("Can't mix absolute and relative paths") from None
  split_paths = [[c for c in s if c and c != curdir] for s in split_paths]
  s1 = min(split_paths)
  s2 = max(split_paths)
  common = s1
  for i, c in enumerate(s1):
      if c != s2[i]:
          common = s1[:i]
          break
  prefix = sep if isabs else sep[:0]
  return prefix + sep.join(common)
  \<close>
  The runner passes \<open>Path.cwd()\<close> and \<open>Path(crash.path)\<close>. The normalisation done by
  \<open>Path\<close> removes empty and \<open>.\<close> components and keeps a leading slash, which changes
  neither \<open>p[:1] == sep\<close> nor the filtered components, so the paths are taken as the
  strings they were built from. Lists of strings are compared lexicographically, by
  character code, as Python compares them.
\<close>

definition is_abs :: "string \<Rightarrow> bool" where
  "is_abs p \<longleftrightarrow> take 1 p = ''/''"

definition components :: "string \<Rightarrow> string list" where
  "components p = filter (\<lambda>c. c \<noteq> [] \<and> c \<noteq> ''.'') (split_on (CHR ''/'') p)"

text \<open>The \<open>for\<close> loop; \<open>s2[i]\<close> beyond the end of \<open>s2\<close> is an IndexError.\<close>

fun common_loop :: "string list \<Rightarrow> string list \<Rightarrow> error + string list" where
  "common_loop [] s2 = Inr []"
| "common_loop (c # s1) [] = Inl IndexError"
| "common_loop (c # s1) (d # s2) =
     (if c \<noteq> d then Inr []
      else (case common_loop s1 s2 of
              Inl e \<Rightarrow> Inl e
            | Inr common \<Rightarrow> Inr (c # common)))"

definition commonpath :: "string \<Rightarrow> string \<Rightarrow> error + string" where
  "commonpath p q =
     (if is_abs p \<noteq> is_abs q then Inl ValueError
      else let s1 = min (components p) (components q);
               s2 = max (components p) (components q)
           in (case common_loop s1 s2 of
                 Inl e \<Rightarrow> Inl e
               | Inr common \<Rightarrow>
                   Inr ((if is_abs p then ''/'' else []) @ join ''/'' common)))"

subsection \<open>\<open>ResultsReporter._make_message\<close>\<close>

text \<open>
  \<^verbatim>\<open>
  def _make_message(self, trace, crash=None):
      message = dedent(re.sub("^E ", "  ", str(trace), flags=re.M))
      if crash:
          common = os.path.commonpath([Path.cwd(), Path(crash.path)])
          message = message.replace(common, ".")
      return message
  \<close>
  \<open>trace\<close> is given by its rendering \<open>str(trace)\<close>, \<open>crash\<close> is pytest's
  \<open>ReprFileLocation\<close> or \<open>None\<close>, and the working directory of the process is an
  explicit argument.
\<close>

record crash =
  path :: string
  lineno :: int
  crash_message :: string

definition make_message :: "string \<Rightarrow> string \<Rightarrow> crash option \<Rightarrow> error + string" where
  "make_message cwd trace crash =
     (let message = dedent (sub_marker trace) in
      case crash of
        None \<Rightarrow> Inr message
      | Some c \<Rightarrow>
          (case commonpath cwd (path c) of
             Inl e \<Rightarrow> Inl e
           | Inr common \<Rightarrow> Inr (replace_str common ''.'' message)))"

section \<open>Data model\<close>

text \<open>
  Modelled from the spec: the classes \<open>Test\<close> and \<open>Results\<close> of \<open>runner.data\<close>, which
  the reporter imports and whose source is not part of the checked files. A test record
  has a name, a status that starts as passed, and an optional message, captured output
  and source text; \<open>fail\<close> and \<open>error\<close> set the status together with the message. The
  run outcome has an overall status that starts as ok, an optional error message and
  the test records in the order they were added.
\<close>

datatype status = Passed | Failed | Errored

record test =
  name :: string
  status :: status
  message :: "string option"
  "output" :: "string option"
  test_code :: "string option"

definition Test :: "string \<Rightarrow> test" where
  "Test n = \<lparr>name = n, status = Passed, message = None, output = None, test_code = None\<rparr>"

definition is_passing :: "test \<Rightarrow> bool" where
  "is_passing t \<longleftrightarrow> status t = Passed"

definition test_fail :: "string option \<Rightarrow> test \<Rightarrow> test" where
  "test_fail m t = t\<lparr>status := Failed, message := m\<rparr>"

definition test_error :: "string option \<Rightarrow> test \<Rightarrow> test" where
  "test_error m t = t\<lparr>status := Errored, message := m\<rparr>"

datatype run_status = Ok | TestFailures | RunError

record results =
  overall_status :: run_status
  error_message :: "string option"
  run_tests :: "test list"

definition Results :: results where
  "Results = \<lparr>overall_status = Ok, error_message = None, run_tests = []\<rparr>"

definition results_fail :: "results \<Rightarrow> results" where
  "results_fail rs = rs\<lparr>overall_status := TestFailures\<rparr>"

definition results_error :: "string \<Rightarrow> results \<Rightarrow> results" where
  "results_error m rs = rs\<lparr>overall_status := RunError, error_message := Some m\<rparr>"

definition results_add :: "test \<Rightarrow> results \<Rightarrow> results" where
  "results_add t rs = rs\<lparr>run_tests := run_tests rs @ [t]\<rparr>"

section \<open>The engine's reports\<close>

text \<open>
  A pytest \<open>TestReport\<close>, reduced to the attributes the reporter reads. \<open>outcome\<close> is
  one of pytest's three outcomes; \<open>report.passed\<close> and \<open>report.failed\<close> compare it with
  \<open>"passed"\<close> and \<open>"failed"\<close>. \<open>longrepr\<close> is \<open>None\<close> or an exception representation with a
  traceback (given by its rendering) and an optional crash locator.
\<close>

datatype phase = Setup | Call | Teardown

datatype outcome = OutcomePassed | OutcomeFailed | OutcomeSkipped

record exception_repr =
  reprtraceback :: string
  reprcrash :: "crash option"

record report =
  nodeid :: string
  "when" :: phase
  outcome :: outcome
  capstdout :: string
  longrepr :: "exception_repr option"
  fspath :: string

definition passed :: "report \<Rightarrow> bool" where
  "passed rep \<longleftrightarrow> outcome rep = OutcomePassed"

definition failed :: "report \<Rightarrow> bool" where
  "failed rep \<longleftrightarrow> outcome rep = OutcomeFailed"

section \<open>Paths\<close>

text \<open>
  \<open>Path(a) / b\<close> and \<open>a.joinpath(b)\<close>, read back with \<open>str\<close>, for POSIX paths.
  pathlib joins the raw segments with \<open>posixpath.join\<close> and parses the result:
  \<^verbatim>\<open>
  def join(a, b):                      # posixpath, two segments
      if b.startswith('/'):
          path = b
      elif not a or a.endswith('/'):
          path = a + b
      else:
          path = a + '/' + b
      return path

  def splitroot(p):                    # posixpath
      if p[:1] != '/':
          return '', '', p
      elif p[1:2] != '/' or p[2:3] == '/':
          return '', '/', p[1:]
      else:
          return '', p[:2], p[2:]

  parsed = [x for x in rel.split('/') if x and x != '.']    # pathlib
  str(path) = root + '/'.join(parsed) or '.'
  \<close>
  The filter drops the empty components, so splitting the whole path gives the same
  parts as splitting what follows the root. A directory is given by its string.
\<close>

definition posix_join :: "string \<Rightarrow> string \<Rightarrow> string" where
  "posix_join a b =
     (if prefix ''/'' b then b
      else if a = [] \<or> last a = CHR ''/'' then a @ b
      else a @ ''/'' @ b)"

definition path_root :: "string \<Rightarrow> string" where
  "path_root p =
     (if \<not> prefix ''/'' p then []
      else if \<not> prefix ''//'' p \<or> prefix ''///'' p then ''/''
      else ''//'')"

definition path_str :: "string \<Rightarrow> string" where
  "path_str p =
     (let root = path_root p; parsed = components p
      in if root \<noteq> [] then root @ join ''/'' parsed
         else if parsed = [] then ''.''
         else join ''/'' parsed)"

definition path_join :: "string \<Rightarrow> string \<Rightarrow> string" where
  "path_join a b = path_str (posix_join a b)"

section \<open>The results reporter\<close>

text \<open>
  The state of a \<open>ResultsReporter\<close>. \<open>tests\<close> is a Python dict, which keeps its keys in
  insertion order: an association list with distinct keys, read with \<open>map_of\<close>,
  written with \<open>AList.update\<close> (in place for a present key, at the end for a new one).
\<close>

record pytest_config =
  rootdir :: string

record reporter =
  results :: results
  tests :: "(string \<times> test) list"
  last_err :: "string option"
  config :: "pytest_config option"

definition ResultsReporter :: reporter where
  "ResultsReporter = \<lparr>results = Results, tests = [], last_err = None, config = None\<rparr>"

text \<open>
  What the reporter reads from outside itself: the working directory of the process and
  the ordering adapter's \<open>TestOrder.function_source(test_id, source)\<close>, whose source is
  not part of the checked files and which is taken as a parameter that may raise.
\<close>

record env =
  cwd :: string
  function_source :: "string \<Rightarrow> string \<Rightarrow> error + string"

definition pytest_configure :: "reporter \<Rightarrow> pytest_config \<Rightarrow> reporter" where
  "pytest_configure r c = r\<lparr>config := Some c\<rparr>"

text \<open>\<open>".".join(report.nodeid.split("::")[1:])\<close>\<close>

definition test_name :: "string \<Rightarrow> string" where
  "test_name nid = join ''.'' (tl (split_dcolon nid))"

text \<open>
  Lines 64 to 68 of the handler: the message of a failed report.
  \<^verbatim>\<open>
  message = None
  if report.longrepr:
      trace = report.longrepr.reprtraceback
      crash = report.longrepr.reprcrash
      message = self._make_message(trace, crash)
  \<close>
\<close>

definition failure_message :: "env \<Rightarrow> report \<Rightarrow> error + string option" where
  "failure_message e rep =
     (case longrepr rep of
        None \<Rightarrow> Inr None
      | Some lr \<Rightarrow>
          (case make_message (cwd e) (reprtraceback lr) (reprcrash lr) of
             Inl x \<Rightarrow> Inl x
           | Inr m \<Rightarrow> Inr (Some m)))"

text \<open>
  \<^verbatim>\<open>
  def pytest_runtest_logreport(self, report):
      name = ".".join(report.nodeid.split("::")[1:])
      if name not in self.tests:
          self.tests[name] = Test(name)
      state = self.tests[name]

      # ignore succesful setup and teardown stages
      if report.passed and report.when != "call":
          return

      # do not update tests that have already failed
      if not state.is_passing():
          return

      # captured stdout content, if any
      if report.capstdout:
          state.output = report.capstdout

      # handle test failure
      if report.failed:

          # traceback that caused the issued, if any
          message = None
          if report.longrepr:
              trace = report.longrepr.reprtraceback
              crash = report.longrepr.reprcrash
              message = self._make_message(trace, crash)

          # test failed due to a setup / teardown error
          if report.when != "call":
              state.error(message)
          else:
              state.fail(message)

      test_id = Hierarchy(report.nodeid)
      source = Path(self.config.rootdir) / report.fspath
      state.test_code = TestOrder.function_source(test_id, source)
  \<close>
  \<open>state\<close> is the record stored in the dict and is mutated in place; the model writes the
  final record back under its name. \<open>self.config.rootdir\<close> is an AttributeError while
  \<open>config\<close> is still \<open>None\<close>. An exception ends the handler: the result is the error.
\<close>

definition pytest_runtest_logreport :: "env \<Rightarrow> reporter \<Rightarrow> report \<Rightarrow> error + reporter" where
  "pytest_runtest_logreport e r rep =
     (let nm = test_name (nodeid rep);
          tests1 = (if map_of (tests r) nm = None then tests r @ [(nm, Test nm)]
                    else tests r);
          state = (case map_of tests1 nm of None \<Rightarrow> Test nm | Some t \<Rightarrow> t);
          r1 = r\<lparr>tests := tests1\<rparr>
      in if passed rep \<and> when rep \<noteq> Call then Inr r1
         else if \<not> is_passing state then Inr r1
         else
           let state1 = (if capstdout rep \<noteq> [] then state\<lparr>output := Some (capstdout rep)\<rparr>
                         else state)
           in case (if failed rep
                    then (case failure_message e rep of
                            Inl x \<Rightarrow> Inl x
                          | Inr m \<Rightarrow>
                              Inr (if when rep \<noteq> Call then test_error m state1
                                   else test_fail m state1))
                    else Inr state1) of
                Inl x \<Rightarrow> Inl x
              | Inr state2 \<Rightarrow>
                  (case config r of
                     None \<Rightarrow> Inl AttributeError
                   | Some c \<Rightarrow>
                       (case function_source e (nodeid rep)
                               (path_join (rootdir c) (fspath rep)) of
                          Inl x \<Rightarrow> Inl x
                        | Inr src \<Rightarrow>
                            Inr (r1\<lparr>tests :=
                                   AList.update nm (state2\<lparr>test_code := Some src\<rparr>)
                                     tests1\<rparr>))))"



text \<open>
  \<^verbatim>\<open>
  def pytest_exception_interact(self, node, call, report):
      if report.outcome == "failed":
          excinfo = call.excinfo
          err = excinfo.getrepr(style="no", abspath=False)
          trace = err.chain[0][0]
          crash = err.chain[0][1]
          self.last_err = self._make_message(trace, crash)
  \<close>
  The traceback and crash locator of the first chain element are arguments.
\<close>

definition pytest_exception_interact ::
    "env \<Rightarrow> reporter \<Rightarrow> outcome \<Rightarrow> string \<Rightarrow> crash option \<Rightarrow> error + reporter" where
  "pytest_exception_interact e r oc trace crash =
     (if oc = OutcomeFailed
      then (case make_message (cwd e) trace crash of
              Inl x \<Rightarrow> Inl x
            | Inr m \<Rightarrow> Inr (r\<lparr>last_err := Some m\<rparr>))
      else Inr r)"

subsection \<open>End of the session\<close>

text \<open>pytest's \<open>ExitCode\<close> enumeration; \<open>ExitCode(n)\<close> for another \<open>n\<close> is a ValueError.\<close>

datatype exit_code =
  OK | TESTS_FAILED | INTERRUPTED | INTERNAL_ERROR | USAGE_ERROR | NO_TESTS_COLLECTED

definition ExitCode :: "int \<Rightarrow> error + exit_code" where
  "ExitCode n =
     (if n = 0 then Inr OK
      else if n = 1 then Inr TESTS_FAILED
      else if n = 2 then Inr INTERRUPTED
      else if n = 3 then Inr INTERNAL_ERROR
      else if n = 4 then Inr USAGE_ERROR
      else if n = 5 then Inr NO_TESTS_COLLECTED
      else Inl ValueError)"

fun exit_code_value :: "exit_code \<Rightarrow> int" where
  "exit_code_value OK = 0"
| "exit_code_value TESTS_FAILED = 1"
| "exit_code_value INTERRUPTED = 2"
| "exit_code_value INTERNAL_ERROR = 3"
| "exit_code_value USAGE_ERROR = 4"
| "exit_code_value NO_TESTS_COLLECTED = 5"

fun exit_code_name :: "exit_code \<Rightarrow> string" where
  "exit_code_name OK = ''OK''"
| "exit_code_name TESTS_FAILED = ''TESTS_FAILED''"
| "exit_code_name INTERRUPTED = ''INTERRUPTED''"
| "exit_code_name INTERNAL_ERROR = ''INTERNAL_ERROR''"
| "exit_code_name USAGE_ERROR = ''USAGE_ERROR''"
| "exit_code_name NO_TESTS_COLLECTED = ''NO_TESTS_COLLECTED''"

text \<open>\<open>f"Unexpected ExitCode.{exitcode.name}: check logs for details"\<close>\<close>

definition unexpected_message :: "exit_code \<Rightarrow> string" where
  "unexpected_message c =
     ''Unexpected ExitCode.'' @ exit_code_name c @ '': check logs for details''"

text \<open>
  \<^verbatim>\<open>
  def pytest_sessionfinish(self, session, exitstatus):
      exitcode = pytest.ExitCode(int(exitstatus))

      # at least one of the tests has failed
      if exitcode is pytest.ExitCode.TESTS_FAILED:
          self.results.fail()

      # an error has been encountered
      elif exitcode is not pytest.ExitCode.OK:
          message = None
          if self.last_err is not None:
              message = self.last_err
          else:
              message = f"Unexpected ExitCode.{exitcode.name}: check logs for details"
          self.results.error(message)

      for test in self.tests.values():
          self.results.add(test)
  \<close>
\<close>

definition pytest_sessionfinish :: "reporter \<Rightarrow> int \<Rightarrow> error + reporter" where
  "pytest_sessionfinish r exitstatus =
     (case ExitCode exitstatus of
        Inl x \<Rightarrow> Inl x
      | Inr exitcode \<Rightarrow>
          (let res1 =
                 (if exitcode = TESTS_FAILED then results_fail (results r)
                  else if exitcode \<noteq> OK
                       then results_error
                              (case last_err r of
                                 Some m \<Rightarrow> m
                               | None \<Rightarrow> unexpected_message exitcode)
                              (results r)
                       else results r)
           in Inr (r\<lparr>results := fold results_add (map snd (tests r)) res1\<rparr>)))"

section \<open>Run driver\<close>

text \<open>
  The parsed configuration: what \<open>json.loads\<close> returns. A JSON object is a dict with
  distinct keys, kept as an association list; the value of a number plays no role here.
\<close>

datatype json =
  JNull | JBool bool | JNum int | JStr string | JArr "json list" | JObj "(string \<times> json) list"

text \<open>\<open>d.get(key, default)\<close>: only a dict has the method.\<close>

definition dict_get :: "json \<Rightarrow> string \<Rightarrow> json \<Rightarrow> error + json" where
  "dict_get d k dflt =
     (case d of
        JObj kvs \<Rightarrow> Inr (case map_of kvs k of None \<Rightarrow> dflt | Some v \<Rightarrow> v)
      | _ \<Rightarrow> Inl AttributeError)"

text \<open>
  \<open>for filename in value\<close>: a list yields its elements, a string its characters, a
  dict its keys; anything else is not iterable.
\<close>

definition iterate :: "json \<Rightarrow> error + json list" where
  "iterate v =
     (case v of
        JArr xs \<Rightarrow> Inr xs
      | JStr s \<Rightarrow> Inr (map (\<lambda>c. JStr [c]) s)
      | JObj kvs \<Rightarrow> Inr (map (\<lambda>kv. JStr (fst kv)) kvs)
      | _ \<Rightarrow> Inl TypeError)"

text \<open>The loop body \<open>test_files.append(indir.joinpath(filename))\<close>; a path segment is a string.\<close>

fun append_test_files :: "string \<Rightarrow> string list \<Rightarrow> json list \<Rightarrow> error + string list" where
  "append_test_files indir test_files [] = Inr test_files"
| "append_test_files indir test_files (filename # rest) =
     (case filename of
        JStr f \<Rightarrow> append_test_files indir (test_files @ [path_join indir f]) rest
      | _ \<Rightarrow> Inl TypeError)"

text \<open>
  What the driver finds at \<open>indir/.meta/config.json\<close>: no file, a file that
  \<open>json.loads\<close> rejects, or a file with its parsed content.
\<close>

datatype config_file = NoConfigFile | InvalidConfig | ParsedConfig json

text \<open>
  What the driver hands to its collaborators: the argument list of \<open>pytest.main\<close>, and
  the file it writes with the mode it passes to \<open>chmod\<close>. The content of the file comes
  from the engine's run and is not part of the model.
\<close>

record run_plan =
  engine_args :: "string list"
  out_file :: string
  out_mode :: nat

text \<open>
  \<^verbatim>\<open>
  def run(slug, indir, outdir, args):
      test_files = []
      config_file = indir.joinpath(".meta").joinpath("config.json")
      if config_file.is_file():
          config_data = json.loads(config_file.read_text())
          for filename in config_data.get('files', {}).get('test', []):
              test_files.append(indir.joinpath(filename))
      if not test_files:
          test_files.append(indir.joinpath(slug.replace("-", "_") + "_test.py"))
      out_file = outdir.joinpath("results.json")
      # run the tests and report
      reporter = ResultsReporter()
      pytest.main(_sanitize_args(args or []) + [str(tf) for tf in test_files], plugins=[reporter])
      # dump the report
      out_file.write_text(reporter.results.as_json())
      out_file.chmod(664)
  \<close>
  \<open>args\<close> may be \<open>None\<close>. The literal \<open>664\<close> is a decimal number in Python.
\<close>

definition config_test_files :: "string \<Rightarrow> config_file \<Rightarrow> error + string list" where
  "config_test_files indir cf =
     (case cf of
        NoConfigFile \<Rightarrow> Inr []
      | InvalidConfig \<Rightarrow> Inl JSONDecodeError
      | ParsedConfig config_data \<Rightarrow>
          (case dict_get config_data ''files'' (JObj []) of
             Inl x \<Rightarrow> Inl x
           | Inr files \<Rightarrow>
               (case dict_get files ''test'' (JArr []) of
                  Inl x \<Rightarrow> Inl x
                | Inr tst \<Rightarrow>
                    (case iterate tst of
                       Inl x \<Rightarrow> Inl x
                     | Inr filenames \<Rightarrow> append_test_files indir [] filenames))))"

definition default_test_file :: "string \<Rightarrow> string \<Rightarrow> string" where
  "default_test_file slug indir = path_join indir (replace_str ''-'' ''_'' slug @ ''_test.py'')"

definition run ::
    "string \<Rightarrow> string \<Rightarrow> string \<Rightarrow> string list option \<Rightarrow> config_file \<Rightarrow> error + run_plan" where
  "run slug indir outdir args cf =
     (case config_test_files indir cf of
        Inl x \<Rightarrow> Inl x
      | Inr found \<Rightarrow>
          (let test_files = (if found = [] then [default_test_file slug indir] else found)
           in Inr \<lparr>engine_args =
                      sanitize_args (case args of None \<Rightarrow> [] | Some a \<Rightarrow> if a = [] then [] else a)
                        @ test_files,
                    out_file = path_join outdir ''results.json'',
                    out_mode = 664\<rparr>))"

text \<open>
  File mode bits as \<open>chmod\<close> reads them: three bits each for owner, group and others
  (read 4, write 2, execute 1), and above them the set-uid, set-gid and sticky bits.
\<close>

definition owner_bits :: "nat \<Rightarrow> nat" where
  "owner_bits m = (m div 64) mod 8"

definition group_bits :: "nat \<Rightarrow> nat" where
  "group_bits m = (m div 8) mod 8"

definition other_bits :: "nat \<Rightarrow> nat" where
  "other_bits m = m mod 8"

definition special_bits :: "nat \<Rightarrow> nat" where
  "special_bits m = (m div 512) mod 8"

section \<open>Conditions and example collaborators used in the statements\<close>

text \<open>The record of a name is absent (it will be created as passed) or still passing.\<close>

definition still_passing :: "reporter \<Rightarrow> string \<Rightarrow> bool" where
  "still_passing r nm = (case map_of (tests r) nm of None \<Rightarrow> True | Some t \<Rightarrow> is_passing t)"

text \<open>
  The failure detail of a report has no crash locator, or one whose path is absolute
  exactly when the working directory is.
\<close>

definition crash_path_ok :: "env \<Rightarrow> report \<Rightarrow> bool" where
  "crash_path_ok e rep =
     (case longrepr rep of
        None \<Rightarrow> True
      | Some lr \<Rightarrow>
          (case reprcrash lr of
             None \<Rightarrow> True
           | Some cr \<Rightarrow> is_abs (cwd e) = is_abs (path cr)))"

text \<open>
  The configuration is a JSON object whose nested test-file list is absent (no \<open>files\<close>
  entry, or a \<open>files\<close> object without a \<open>test\<close> entry) or the empty list.
\<close>

definition test_list_absent_or_empty :: "json \<Rightarrow> bool" where
  "test_list_absent_or_empty config_data =
     (case config_data of
        JObj kvs \<Rightarrow>
          (case map_of kvs ''files'' of
             None \<Rightarrow> True
           | Some files \<Rightarrow>
               (case files of
                  JObj fs \<Rightarrow>
                    (case map_of fs ''test'' of None \<Rightarrow> True | Some t \<Rightarrow> t = JArr [])
                | _ \<Rightarrow> False))
      | _ \<Rightarrow> False)"

text \<open>Two ordering adapters for the examples: one returns a source text, one raises.\<close>

definition adapter_returning :: "string \<Rightarrow> string \<Rightarrow> string \<Rightarrow> error + string" where
  "adapter_returning src test_id source = Inr src"

definition adapter_faulting :: "string \<Rightarrow> string \<Rightarrow> error + string" where
  "adapter_faulting test_id source = Inl AdapterFault"

section \<open>Example inputs\<close>

abbreviation example_env :: env where
  "example_env \<equiv>
     \<lparr>cwd = ''/work/proj'', function_source = adapter_returning ''def test_a(self): ...''\<rparr>"

abbreviation faulting_env :: env where
  "faulting_env \<equiv> \<lparr>cwd = ''/work/proj'', function_source = adapter_faulting\<rparr>"

abbreviation configured_reporter :: reporter where
  "configured_reporter \<equiv> pytest_configure ResultsReporter \<lparr>rootdir = ''/work/proj''\<rparr>"

abbreviation failed_test :: test where
  "failed_test \<equiv>
     \<lparr>name = ''T.test_a'', status = Failed, message = Some ''assert 1 == 2'',
      output = Some ''old'', test_code = Some ''def test_a(self): ...''\<rparr>"

abbreviation failed_reporter :: reporter where
  "failed_reporter \<equiv>
     \<lparr>results = Results, tests = [(''T.test_a'', failed_test)], last_err = None,
      config = Some \<lparr>rootdir = ''/work/proj''\<rparr>\<rparr>"

abbreviation teardown_failed :: report where
  "teardown_failed \<equiv>
     \<lparr>nodeid = ''t_test.py::T::test_a'', when = Teardown, outcome = OutcomeFailed,
      capstdout = ''new'', longrepr = None, fspath = ''t_test.py''\<rparr>"


abbreviation call_failed :: report where
  "call_failed \<equiv>
     \<lparr>nodeid = ''t_test.py::T::test_a'', when = Call, outcome = OutcomeFailed,
      capstdout = ''seen'',
      longrepr = Some \<lparr>reprtraceback = ''E   assert 1 == 2'',
                        reprcrash = Some \<lparr>path = ''/work/proj/t_test.py'', lineno = 9,
                                           crash_message = ''assert 1 == 2''\<rparr>\<rparr>,
      fspath = ''t_test.py''\<rparr>"

abbreviation call_failed_in_string :: report where
  "call_failed_in_string \<equiv>
     \<lparr>nodeid = ''t_test.py::T::test_a'', when = Call, outcome = OutcomeFailed,
      capstdout = [],
      longrepr = Some \<lparr>reprtraceback = ''E   assert 1 == 2'',
                        reprcrash = Some \<lparr>path = ''<string>'', lineno = 1,
                                           crash_message = ''assert 1 == 2''\<rparr>\<rparr>,
      fspath = ''t_test.py''\<rparr>"

abbreviation call_passed :: report where
  "call_passed \<equiv>
     \<lparr>nodeid = ''t_test.py::T::test_a'', when = Call, outcome = OutcomePassed,
      capstdout = [], longrepr = None, fspath = ''t_test.py''\<rparr>"




section \<open>Properties of the sanitizer\<close>

lemma sanitize_loop_acc:
  "sanitize_loop clean skip args = clean @ sanitize_loop [] skip args"
proof (induction args arbitrary: clean skip)
  case Nil
  show ?case by simp
next
  case (Cons arg args)
  have step: "sanitize_loop (clean @ [arg]) False args
      = clean @ sanitize_loop [arg] False args"
    using Cons.IH [of "clean @ [arg]" False] Cons.IH [of "[arg]" False] by simp
  show ?case
    using Cons.IH [of clean False] Cons.IH [of clean True] step by simp
qed

lemma sanitize_loop_subseq: "subseq (sanitize_loop [] skip args) args"
proof (induction args arbitrary: skip)
  case Nil
  show ?case by simp
next
  case (Cons arg args)
  have keep: "sanitize_loop [arg] False args = arg # sanitize_loop [] False args"
    using sanitize_loop_acc [of "[arg]" False args] by simp
  show ?case
    using Cons.IH [of False] Cons.IH [of True] keep by auto
qed

lemma sanitize_loop_no_flag:
  "a \<in> set (sanitize_loop [] skip args) \<Longrightarrow> \<not> is_tb_flag a"
proof (induction args arbitrary: skip)
  case Nil
  then show ?case by simp
next
  case (Cons arg args)
  have keep: "sanitize_loop [arg] False args = arg # sanitize_loop [] False args"
    using sanitize_loop_acc [of "[arg]" False args] by simp
  from Cons.prems Cons.IH [of False] Cons.IH [of True] keep show ?case
    by (auto simp: is_tb_flag_def split: if_splits)
qed

lemma sanitize_loop_equals_form:
  "''--tb'' \<notin> set args \<Longrightarrow>
   sanitize_loop [] False args = filter (\<lambda>a. \<not> prefix ''--tb='' a) args"
proof (induction args)
  case Nil
  show ?case by simp
next
  case (Cons arg args)
  have keep: "sanitize_loop [arg] False args = arg # sanitize_loop [] False args"
    using sanitize_loop_acc [of "[arg]" False args] by simp
  from Cons keep show ?case by auto
qed

lemma sanitize_loop_append:
  "''--tb'' \<notin> set pre \<Longrightarrow>
   sanitize_loop [] False (pre @ rest)
     = filter (\<lambda>a. \<not> prefix ''--tb='' a) pre @ sanitize_loop [] False rest"
proof (induction pre)
  case Nil
  show ?case by simp
next
  case (Cons arg pre)
  have keep: "sanitize_loop [arg] False (pre @ rest)
      = arg # sanitize_loop [] False (pre @ rest)"
    using sanitize_loop_acc [of "[arg]" False "pre @ rest"] by simp
  from Cons keep show ?case by auto
qed

text \<open>
  C5. The sanitizer ends with \<open>--tb=no\<close>; what precedes it is a subsequence of the
  input (relative order preserved) that contains no traceback flag in either form; an
  equals-form flag is dropped on its own, a separate-token flag is dropped together with
  the token after it, and every other argument before it is kept; the three examples of
  the specification evaluate as stated.
\<close>

theorem sanitize_args_spec:
  "(\<exists>kept. sanitize_args args = kept @ [''--tb=no'']
      \<and> subseq kept args
      \<and> (\<forall>a \<in> set kept. a \<noteq> ''--tb'' \<and> \<not> prefix ''--tb='' a))
   \<and> last (sanitize_args args) = ''--tb=no''
   \<and> (''--tb'' \<notin> set args \<longrightarrow>
        sanitize_args args = filter (\<lambda>a. \<not> prefix ''--tb='' a) args @ [''--tb=no''])
   \<and> (''--tb'' \<notin> set pre \<longrightarrow>
        sanitize_args (pre @ ''--tb'' # v # rest)
          = filter (\<lambda>a. \<not> prefix ''--tb='' a) pre @ sanitize_args rest)
   \<and> sanitize_args [''--tb=long'', ''-v''] = [''-v'', ''--tb=no'']
   \<and> sanitize_args [''--tb'', ''long'', ''-x''] = [''-x'', ''--tb=no'']
   \<and> sanitize_args [''-q''] = [''-q'', ''--tb=no'']"
proof -
  have kept: "\<exists>kept. sanitize_args args = kept @ [''--tb=no'']
      \<and> subseq kept args
      \<and> (\<forall>a \<in> set kept. a \<noteq> ''--tb'' \<and> \<not> prefix ''--tb='' a)"
    using sanitize_loop_subseq [of False args] sanitize_loop_no_flag [of _ False args]
    unfolding sanitize_args_def is_tb_flag_def by blast
  have final: "last (sanitize_args args) = ''--tb=no''"
    by (simp add: sanitize_args_def)
  have equals_form: "''--tb'' \<notin> set args \<longrightarrow>
        sanitize_args args = filter (\<lambda>a. \<not> prefix ''--tb='' a) args @ [''--tb=no'']"
    by (simp add: sanitize_args_def sanitize_loop_equals_form)
  have token_form: "''--tb'' \<notin> set pre \<longrightarrow>
        sanitize_args (pre @ ''--tb'' # v # rest)
          = filter (\<lambda>a. \<not> prefix ''--tb='' a) pre @ sanitize_args rest"
    by (simp add: sanitize_args_def sanitize_loop_append)
  have ex1: "sanitize_args [''--tb=long'', ''-v''] = [''-v'', ''--tb=no'']"
    by (simp add: sanitize_args_def)
  have ex2: "sanitize_args [''--tb'', ''long'', ''-x''] = [''-x'', ''--tb=no'']"
    by (simp add: sanitize_args_def)
  have ex3: "sanitize_args [''-q''] = [''-q'', ''--tb=no'']"
    by (simp add: sanitize_args_def)
  from kept final equals_form token_form ex1 ex2 ex3 show ?thesis by blast
qed

theorem sanitize_args_spec_witness:
  "''--tb'' \<notin> set [''-s'', ''--tb=short'']
   \<and> sanitize_args ([''-s'', ''--tb=short''] @ ''--tb'' # ''line'' # [''-x''])
       = [''-s'', ''-x'', ''--tb=no'']
   \<and> sanitize_args [''-s'', ''--tb=short''] = [''-s'', ''--tb=no'']"
proof -
  have h: "''--tb'' \<notin> set [''-s'', ''--tb=short'']" by simp
  note spec = sanitize_args_spec [of "[''-s'', ''--tb=short'']" "[''-s'', ''--tb=short'']"
      "''line''" "[''-x'']"]
  have a: "sanitize_args ([''-s'', ''--tb=short''] @ ''--tb'' # ''line'' # [''-x''])
       = [''-s'', ''-x'', ''--tb=no'']"
    using spec h by (simp add: sanitize_args_def)
  have b: "sanitize_args [''-s'', ''--tb=short''] = [''-s'', ''--tb=no'']"
    using spec h by simp
  show ?thesis using h a b by simp
qed

section \<open>Properties of the string operations\<close>

lemma replace_str_hit:
  "old \<noteq> [] \<Longrightarrow> prefix old (c # cs) \<Longrightarrow>
   replace_str old new (c # cs) = new @ replace_str old new (drop (length old) (c # cs))"
  by simp

lemma replace_str_miss:
  "old \<noteq> [] \<Longrightarrow> \<not> prefix old (c # cs) \<Longrightarrow>
   replace_str old new (c # cs) = c # replace_str old new cs"
  by simp

lemma drop_prefix_append:
  "prefix p A \<Longrightarrow> drop (length p) (A @ R) = drop (length p) A @ R"
  by (auto simp: prefix_def)

lemma no_straddle:
  assumes bf: "border_free p" and ne: "A \<noteq> []" and np: "\<not> prefix p A"
  shows "\<not> prefix p (A @ p @ B)"
proof
  assume "prefix p (A @ p @ B)"
  then obtain zs where eq: "A @ p @ B = p @ zs"
    unfolding prefix_def by blast
  have short: "length A < length p"
  proof (rule ccontr)
    assume "\<not> length A < length p"
    then have le: "length p \<le> length A" by simp
    have "take (length p) (A @ p @ B) = take (length p) A"
      using le by simp
    moreover have "take (length p) (p @ zs) = p" by simp
    ultimately have "p = take (length p) A" using eq by simp
    then have "prefix p A" using take_is_prefix [of "length p" A] by simp
    with np show False ..
  qed
  define us where "us = drop (length A) p"
  have "take (length A) (A @ p @ B) = A" by simp
  moreover have "take (length A) (p @ zs) = take (length A) p"
    using short by simp
  ultimately have A: "A = take (length A) p" using eq by simp
  have p: "p = A @ us"
    unfolding us_def using A append_take_drop_id [of "length A" p] by simp
  have "drop (length A) (A @ p @ B) = p @ B" by simp
  moreover have "drop (length A) (p @ zs) = us @ zs"
    unfolding us_def using short by simp
  ultimately have eq2: "p @ B = us @ zs" using eq by simp
  from ne have Apos: "0 < length A" by simp
  have uslen: "length us = length p - length A" by (simp add: us_def)
  have lt: "length us < length p" using uslen Apos short by linarith
  have "take (length us) (p @ B) = take (length us) p" using lt by simp
  moreover have "take (length us) (us @ zs) = us" by simp
  ultimately have "us = take (length us) p" using eq2 by simp
  then have pre: "prefix us p" using take_is_prefix [of "length us" p] by simp
  have "1 \<le> length A" using Apos by linarith
  with short have mem: "length A \<in> set [1..<length p]" by simp
  from bf have "\<forall>d \<in> set [1..<length p]. \<not> prefix (drop d p) p"
    by (simp add: border_free_def list_all_iff)
  with mem have "\<not> prefix (drop (length A) p) p" by blast
  with pre show False by (simp add: us_def)
qed

lemma replace_str_occurrence:
  "border_free p \<Longrightarrow>
   replace_str p new (A @ p @ B) = replace_str p new A @ new @ replace_str p new B"
proof (induction p new A rule: replace_str.induct)
  case (1 old new)
  then have ne: "old \<noteq> []" by (simp add: border_free_def)
  then obtain c cs where old: "old = c # cs" by (cases old) auto
  have "replace_str old new (old @ B) = new @ replace_str old new (drop (length old) (old @ B))"
    unfolding old append_Cons
    by (rule replace_str_hit [unfolded append_Cons]) (simp_all)
  then show ?case using ne by simp
next
  case (2 old new c cs)
  from "2.prems" have ne: "old \<noteq> []" by (simp add: border_free_def)
  show ?case
  proof (cases "prefix old (c # cs)")
    case True
    then have hit: "prefix old (c # (cs @ old @ B))"
      using prefix_prefix [of old "c # cs" "old @ B"] by simp
    have dr: "drop (length old) (c # (cs @ old @ B)) = drop (length old) (c # cs) @ old @ B"
      using drop_prefix_append [OF True, of "old @ B"] by simp
    have "replace_str old new ((c # cs) @ old @ B)
        = new @ replace_str old new (drop (length old) (c # cs) @ old @ B)"
      using replace_str_hit [OF ne hit, of new] dr by (simp only: append_Cons)
    also have "\<dots> = new @ replace_str old new (drop (length old) (c # cs)) @ new @ replace_str old new B"
      using "2.IH"(2) [OF ne True "2.prems"] by simp
    also have "\<dots> = replace_str old new (c # cs) @ new @ replace_str old new B"
      using replace_str_hit [OF ne True, of new] by (simp only: append_assoc)
    finally show ?thesis .
  next
    case False
    have miss: "\<not> prefix old (c # (cs @ old @ B))"
      using no_straddle [OF "2.prems" _ False, of B] by simp
    have "replace_str old new ((c # cs) @ old @ B) = c # replace_str old new (cs @ old @ B)"
      using replace_str_miss [OF ne miss, of new] by (simp only: append_Cons)
    also have "\<dots> = c # replace_str old new cs @ new @ replace_str old new B"
      using "2.IH"(3) [OF ne False "2.prems"] by simp
    also have "\<dots> = replace_str old new (c # cs) @ new @ replace_str old new B"
      using replace_str_miss [OF ne False, of new] by (simp only: append_Cons)
    finally show ?thesis .
  qed
qed

lemma border_free_work_proj: "border_free ''/work/proj''"
  by code_simp

lemma replace_str_after_prefix:
  "replace_str ''/work/proj'' ''.'' (''/sub/test_x.py'' @ B)
     = ''/sub/test_x.py'' @ replace_str ''/work/proj'' ''.'' B"
  by simp

section \<open>Properties of the common path\<close>

lemma longest_common_prefix_commute:
  "longest_common_prefix xs ys = longest_common_prefix ys xs"
  by (induction xs ys rule: longest_common_prefix.induct) auto

lemma common_loop_le:
  "s1 \<le> s2 \<Longrightarrow> common_loop s1 s2 = Inr (longest_common_prefix s1 s2)"
proof (induction s1 s2 rule: common_loop.induct)
  case (1 s2)
  show ?case by simp
next
  case (2 c s1)
  then show ?case by simp
next
  case (3 c s1 d s2)
  then show ?case by (auto split: if_splits)
qed

lemma common_loop_min_max:
  "common_loop (min a b) (max a b) = Inr (longest_common_prefix a b)"
proof (cases "a \<le> b")
  case True
  then show ?thesis by (simp add: min_def max_def common_loop_le)
next
  case False
  then have "b \<le> a" by simp
  then have "common_loop b a = Inr (longest_common_prefix b a)" by (rule common_loop_le)
  with False show ?thesis
    by (simp add: min_def max_def longest_common_prefix_commute [of a b])
qed

lemma commonpath_same_kind:
  "is_abs p = is_abs q \<Longrightarrow>
   commonpath p q
     = Inr ((if is_abs p then ''/'' else []) @
            join ''/'' (longest_common_prefix (components p) (components q)))"
  by (simp add: commonpath_def Let_def common_loop_min_max)

lemma commonpath_mixed: "is_abs p \<noteq> is_abs q \<Longrightarrow> commonpath p q = Inl ValueError"
  by (simp add: commonpath_def)

lemma commonpath_work_proj:
  "commonpath ''/work/proj'' ''/work/proj/sub/test_x.py'' = Inr ''/work/proj''"
  by (simp add: commonpath_same_kind is_abs_def components_def)

section \<open>Properties of the message formatter\<close>

lemma make_message_no_crash:
  "make_message wd trace None = Inr (dedent (sub_marker trace))"
  by (simp add: make_message_def)

lemma make_message_same_kind:
  "is_abs wd = is_abs (path c) \<Longrightarrow>
   make_message wd trace (Some c)
     = Inr (replace_str
              ((if is_abs wd then ''/'' else []) @
               join ''/'' (longest_common_prefix (components wd) (components (path c))))
              ''.'' (dedent (sub_marker trace)))"
  by (simp add: make_message_def commonpath_same_kind)

lemma make_message_mixed:
  "is_abs wd \<noteq> is_abs (path c) \<Longrightarrow> make_message wd trace (Some c) = Inl ValueError"
  by (simp add: make_message_def commonpath_mixed)

lemma text_assert_line:
  "sub_marker ''E   assert 1 == 2'' = ''    assert 1 == 2''"
  "dedent ''    assert 1 == 2'' = ''assert 1 == 2''"
  by (simp_all add: sub_marker_def sub_marker_line_def dedent_def newline_def blank_line_def
      is_blank_def indents_def strip_margin_def)

text \<open>
  C4 (as amended). Without a crash locator the formatter returns, skips the
  relativization, and its result is the rendered traceback with the failing-line marker
  replaced by two spaces and then dedented; with a crash locator whose path is absolute
  exactly when the working directory is, it returns as well.
\<close>

theorem make_message_returns:
  "make_message wd trace None = Inr (dedent (sub_marker trace))
   \<and> (is_abs wd = is_abs (path c) \<longrightarrow> (\<exists>m. make_message wd trace (Some c) = Inr m))"
  by (simp add: make_message_no_crash make_message_same_kind)

theorem make_message_returns_witness:
  "make_message ''/work/proj'' ''E   assert 1 == 2'' None = Inr ''assert 1 == 2''
   \<and> is_abs ''/work/proj''
   \<and> is_abs (path \<lparr>path = ''/work/proj/test_x.py'', lineno = 3, crash_message = ''assert 1 == 2''\<rparr>)
   \<and> (\<exists>m. make_message ''/work/proj'' ''E   assert 1 == 2''
             (Some \<lparr>path = ''/work/proj/test_x.py'', lineno = 3,
                     crash_message = ''assert 1 == 2''\<rparr>) = Inr m)"
  using make_message_returns [of "''/work/proj''" "''E   assert 1 == 2''"
      "\<lparr>path = ''/work/proj/test_x.py'', lineno = 3, crash_message = ''assert 1 == 2''\<rparr>"]
  by (simp add: text_assert_line is_abs_def)

theorem make_message_counterexample:
  "make_message ''/work/proj'' ''E   assert 1 == 2'' None = Inr ''assert 1 == 2''
   \<and> sub_marker ''E   assert 1 == 2'' = ''    assert 1 == 2''
   \<and> make_message ''/work/proj'' ''E   assert 1 == 2''
        (Some \<lparr>path = ''<string>'', lineno = 1, crash_message = ''assert 1 == 2''\<rparr>)
       = Inl ValueError"
  by (simp add: make_message_no_crash make_message_mixed text_assert_line is_abs_def)

text \<open>
  C8 (as amended). With a crash locator whose path is absolute, like the working
  directory, the formatter returns the dedented text in which the occurrences of the
  longest common path of the working directory and the crash path, found from the left
  without overlaps, are replaced by a dot; for \<open>/work/proj\<close> and
  \<open>/work/proj/sub/test_x.py\<close> that path is \<open>/work/proj\<close>, and wherever the crash path
  occurs in the text, \<open>./sub/test_x.py\<close> stands in the result.
\<close>

theorem make_message_relativizes:
  "(is_abs wd \<and> is_abs (path c) \<longrightarrow>
      commonpath wd (path c)
        = Inr (''/'' @ join ''/'' (longest_common_prefix (components wd) (components (path c))))
      \<and> make_message wd trace (Some c)
        = Inr (replace_str
                 (''/'' @ join ''/'' (longest_common_prefix (components wd) (components (path c))))
                 ''.'' (dedent (sub_marker trace))))
   \<and> commonpath ''/work/proj'' ''/work/proj/sub/test_x.py'' = Inr ''/work/proj''
   \<and> (path c = ''/work/proj/sub/test_x.py''
        \<and> dedent (sub_marker trace) = before @ ''/work/proj/sub/test_x.py'' @ after \<longrightarrow>
      make_message ''/work/proj'' trace (Some c)
        = Inr (replace_str ''/work/proj'' ''.'' before @ ''./sub/test_x.py''
               @ replace_str ''/work/proj'' ''.'' after))"
proof -
  have general: "is_abs wd \<and> is_abs (path c) \<longrightarrow>
      commonpath wd (path c)
        = Inr (''/'' @ join ''/'' (longest_common_prefix (components wd) (components (path c))))
      \<and> make_message wd trace (Some c)
        = Inr (replace_str
                 (''/'' @ join ''/'' (longest_common_prefix (components wd) (components (path c))))
                 ''.'' (dedent (sub_marker trace)))"
    using commonpath_same_kind [of wd "path c"] make_message_same_kind [of wd c trace]
    by simp
  have example: "make_message ''/work/proj'' trace (Some c)
        = Inr (replace_str ''/work/proj'' ''.'' before @ ''./sub/test_x.py''
               @ replace_str ''/work/proj'' ''.'' after)"
    if p: "path c = ''/work/proj/sub/test_x.py''"
      and t: "dedent (sub_marker trace) = before @ ''/work/proj/sub/test_x.py'' @ after"
  proof -
    have split: "''/work/proj/sub/test_x.py'' @ after
        = ''/work/proj'' @ (''/sub/test_x.py'' @ after)" by simp
    have "make_message ''/work/proj'' trace (Some c)
        = Inr (replace_str ''/work/proj'' ''.'' (dedent (sub_marker trace)))"
      by (simp add: make_message_def p commonpath_work_proj)
    also have "replace_str ''/work/proj'' ''.'' (dedent (sub_marker trace))
        = replace_str ''/work/proj'' ''.'' before @ ''.''
          @ replace_str ''/work/proj'' ''.'' (''/sub/test_x.py'' @ after)"
      unfolding t split
      by (rule replace_str_occurrence [OF border_free_work_proj])
    also have "\<dots> = replace_str ''/work/proj'' ''.'' before @ ''./sub/test_x.py''
          @ replace_str ''/work/proj'' ''.'' after"
      unfolding replace_str_after_prefix by simp
    finally show ?thesis .
  qed
  from general commonpath_work_proj example show ?thesis by blast
qed

theorem make_message_relativizes_witness:
  "is_abs ''/work/proj''
   \<and> is_abs (path \<lparr>path = ''/work/proj/sub/test_x.py'', lineno = 7, crash_message = ''boom''\<rparr>)
   \<and> dedent (sub_marker ''E   /work/proj/sub/test_x.py:7: boom'')
       = [] @ ''/work/proj/sub/test_x.py'' @ '':7: boom''
   \<and> make_message ''/work/proj'' ''E   /work/proj/sub/test_x.py:7: boom''
        (Some \<lparr>path = ''/work/proj/sub/test_x.py'', lineno = 7, crash_message = ''boom''\<rparr>)
       = Inr ''./sub/test_x.py:7: boom''"
proof -
  have t: "dedent (sub_marker ''E   /work/proj/sub/test_x.py:7: boom'')
       = [] @ ''/work/proj/sub/test_x.py'' @ '':7: boom''"
    by (simp add: sub_marker_def sub_marker_line_def dedent_def newline_def blank_line_def
      is_blank_def indents_def strip_margin_def)
  have p: "path \<lparr>path = ''/work/proj/sub/test_x.py'', lineno = 7, crash_message = ''boom''\<rparr>
      = ''/work/proj/sub/test_x.py''" by simp
  have m: "make_message ''/work/proj'' ''E   /work/proj/sub/test_x.py:7: boom''
        (Some \<lparr>path = ''/work/proj/sub/test_x.py'', lineno = 7, crash_message = ''boom''\<rparr>)
      = Inr (replace_str ''/work/proj'' ''.'' [] @ ''./sub/test_x.py''
             @ replace_str ''/work/proj'' ''.'' '':7: boom'')"
    by (rule mp [OF conjunct2 [OF conjunct2 [OF make_message_relativizes
          [of "''/work/proj''"
            "\<lparr>path = ''/work/proj/sub/test_x.py'', lineno = 7, crash_message = ''boom''\<rparr>"
            "''E   /work/proj/sub/test_x.py:7: boom''" "[]" "'':7: boom''"]]]
          conjI [OF p t]])
  have r: "replace_str ''/work/proj'' ''.'' [] @ ''./sub/test_x.py''
             @ replace_str ''/work/proj'' ''.'' '':7: boom'' = ''./sub/test_x.py:7: boom''"
    by simp
  have a: "is_abs ''/work/proj''" by (simp add: is_abs_def)
  have b: "is_abs (path \<lparr>path = ''/work/proj/sub/test_x.py'', lineno = 7,
      crash_message = ''boom''\<rparr>)" by (simp add: is_abs_def)
  from m r have m': "make_message ''/work/proj'' ''E   /work/proj/sub/test_x.py:7: boom''
        (Some \<lparr>path = ''/work/proj/sub/test_x.py'', lineno = 7, crash_message = ''boom''\<rparr>)
      = Inr ''./sub/test_x.py:7: boom''" by (simp only:)
  from a b t m' show ?thesis by (intro conjI)
qed

theorem make_message_relativizes_counterexample:
  "make_message ''/work/proj'' ''E   ZeroDivisionError: division by zero''
     (Some \<lparr>path = ''<string>'', lineno = 1,
             crash_message = ''ZeroDivisionError: division by zero''\<rparr>)
     = Inl ValueError
   \<and> commonpath ''/a/a'' ''/a/a/t_test.py'' = Inr ''/a/a''
   \<and> make_message ''/a/a'' ''/a/a/a/t_test.py:3: boom''
        (Some \<lparr>path = ''/a/a/t_test.py'', lineno = 3, crash_message = ''boom''\<rparr>)
       = Inr ''./a/t_test.py:3: boom''"
proof -
  have a: "make_message ''/work/proj'' ''E   ZeroDivisionError: division by zero''
     (Some \<lparr>path = ''<string>'', lineno = 1,
             crash_message = ''ZeroDivisionError: division by zero''\<rparr>)
     = Inl ValueError"
    by (simp add: make_message_mixed is_abs_def)
  have b: "commonpath ''/a/a'' ''/a/a/t_test.py'' = Inr ''/a/a''"
    by (simp add: commonpath_same_kind is_abs_def components_def)
  have t: "dedent (sub_marker ''/a/a/a/t_test.py:3: boom'') = ''/a/a/a/t_test.py:3: boom''"
    by (simp add: sub_marker_def sub_marker_line_def dedent_def newline_def blank_line_def
        is_blank_def indents_def strip_margin_def)
  have r: "replace_str ''/a/a'' ''.'' ''/a/a/a/t_test.py:3: boom'' = ''./a/t_test.py:3: boom''"
    by simp
  have c: "make_message ''/a/a'' ''/a/a/a/t_test.py:3: boom''
        (Some \<lparr>path = ''/a/a/t_test.py'', lineno = 3, crash_message = ''boom''\<rparr>)
       = Inr ''./a/t_test.py:3: boom''"
    by (simp add: make_message_def b t r)
  from a b c show ?thesis by (intro conjI)
qed

section \<open>Properties of the report handler\<close>

lemma failure_message_ok:
  "crash_path_ok e rep \<Longrightarrow> \<exists>m. failure_message e rep = Inr m"
  by (auto simp: crash_path_ok_def failure_message_def make_message_no_crash
      make_message_same_kind split: option.splits)

lemma logreport_frozen:
  assumes "map_of (tests r) (test_name (nodeid rep)) = Some t" and "\<not> is_passing t"
  shows "pytest_runtest_logreport e r rep = Inr r"
  using assms by (simp add: pytest_runtest_logreport_def Let_def)






lemma logreport_returns:
  assumes cfg: "config r = Some c"
    and ok: "crash_path_ok e rep"
    and src: "function_source e (nodeid rep) (path_join (rootdir c) (fspath rep)) = Inr src"
  shows "\<exists>r1. pytest_runtest_logreport e r rep = Inr r1"
proof -
  from ok obtain m where "failure_message e rep = Inr m"
    using failure_message_ok by blast
  with cfg src show ?thesis
    by (simp add: pytest_runtest_logreport_def Let_def)
qed

lemma logreport_adapter_fault:
  assumes pass: "still_passing r (test_name (nodeid rep))"
    and act: "\<not> (passed rep \<and> when rep \<noteq> Call)"
    and cfg: "config r = Some c"
    and ok: "crash_path_ok e rep"
    and src: "function_source e (nodeid rep) (path_join (rootdir c) (fspath rep)) = Inl x"
  shows "pytest_runtest_logreport e r rep = Inl x"
proof -
  from ok obtain m where "failure_message e rep = Inr m"
    using failure_message_ok by blast
  with pass act cfg src show ?thesis
    by (auto simp: pytest_runtest_logreport_def Let_def still_passing_def Test_def
        is_passing_def split: option.splits)
qed

lemma example_name: "test_name ''t_test.py::T::test_a'' = ''T.test_a''"
  by (simp add: test_name_def)

text \<open>
  C1 (as amended). Once the record of a name is failed or errored, a later report for
  that name returns without changing the reporter at all: status, message and also the
  output stay as they are, whatever captured output the report carries.
\<close>

theorem failed_record_frozen:
  assumes "map_of (tests r) (test_name (nodeid rep)) = Some t" and "status t \<noteq> Passed"
  shows "pytest_runtest_logreport e r rep = Inr r"
  using assms by (simp add: logreport_frozen is_passing_def)

theorem failed_record_frozen_witness:
  "map_of (tests failed_reporter) (test_name (nodeid teardown_failed)) = Some failed_test
   \<and> status failed_test \<noteq> Passed
   \<and> pytest_runtest_logreport example_env failed_reporter teardown_failed
       = Inr failed_reporter"
proof -
  have a: "map_of (tests failed_reporter) (test_name (nodeid teardown_failed)) = Some failed_test"
    by (simp add: example_name)
  have b: "status failed_test \<noteq> Passed" by simp
  from a b failed_record_frozen [OF a b, of example_env] show ?thesis by (intro conjI)
qed

theorem output_refresh_counterexample:
  "capstdout teardown_failed = ''new''
   \<and> pytest_runtest_logreport example_env failed_reporter teardown_failed
       = Inr failed_reporter
   \<and> map_option output (map_of (tests failed_reporter) ''T.test_a'') = Some (Some ''old'')"
  by (simp add: pytest_runtest_logreport_def Let_def example_name is_passing_def)



lemma configured_facts:
  "still_passing configured_reporter ''T.test_a''"
  "config configured_reporter = Some \<lparr>rootdir = ''/work/proj''\<rparr>"
  by (simp_all add: still_passing_def pytest_configure_def ResultsReporter_def)






text \<open>
  C3 (as amended). The report handler has no fault handling of its own. It returns
  whenever the configuration has been recorded, the crash path of the failure detail
  (if any) is absolute as the working directory is, and the ordering adapter's source
  lookup returns; when the lookup raises for a report that reaches the attachment, the
  handler raises the same fault.
\<close>

theorem logreport_faults:
  "(config r = Some c \<and> crash_path_ok e rep
      \<and> function_source e (nodeid rep) (path_join (rootdir c) (fspath rep)) = Inr src
    \<longrightarrow> (\<exists>r1. pytest_runtest_logreport e r rep = Inr r1))
   \<and> (still_passing r (test_name (nodeid rep)) \<and> \<not> (passed rep \<and> when rep \<noteq> Call)
      \<and> config r = Some c \<and> crash_path_ok e rep
      \<and> function_source e (nodeid rep) (path_join (rootdir c) (fspath rep)) = Inl x
    \<longrightarrow> pytest_runtest_logreport e r rep = Inl x)"
  using logreport_returns [of r c e rep src] logreport_adapter_fault [of r rep c e x]
  by blast

theorem logreport_faults_witness:
  "config configured_reporter = Some \<lparr>rootdir = ''/work/proj''\<rparr>
   \<and> crash_path_ok example_env call_failed
   \<and> (\<exists>r1. pytest_runtest_logreport example_env configured_reporter call_failed = Inr r1)
   \<and> still_passing configured_reporter (test_name (nodeid call_passed))
   \<and> crash_path_ok faulting_env call_passed
   \<and> pytest_runtest_logreport faulting_env configured_reporter call_passed
       = Inl AdapterFault"
proof -
  have k1: "crash_path_ok example_env call_failed"
    by (simp add: crash_path_ok_def is_abs_def)
  have s1: "function_source example_env (nodeid call_failed)
      (path_join (rootdir \<lparr>rootdir = ''/work/proj''\<rparr>) (fspath call_failed))
      = Inr ''def test_a(self): ...''"
    by (simp add: adapter_returning_def)
  have first: "\<exists>r1. pytest_runtest_logreport example_env configured_reporter call_failed = Inr r1"
    using logreport_faults [of configured_reporter "\<lparr>rootdir = ''/work/proj''\<rparr>"
        example_env call_failed "''def test_a(self): ...''"] configured_facts(2) k1 s1
    by blast
  have p: "still_passing configured_reporter (test_name (nodeid call_passed))"
    by (simp add: example_name configured_facts)
  have act: "\<not> (passed call_passed \<and> when call_passed \<noteq> Call)" by simp
  have k2: "crash_path_ok faulting_env call_passed"
    by (simp add: crash_path_ok_def)
  have s2: "function_source faulting_env (nodeid call_passed)
      (path_join (rootdir \<lparr>rootdir = ''/work/proj''\<rparr>) (fspath call_passed))
      = Inl AdapterFault"
    by (simp add: adapter_faulting_def)
  have second: "pytest_runtest_logreport faulting_env configured_reporter call_passed
       = Inl AdapterFault"
    using logreport_faults [of configured_reporter "\<lparr>rootdir = ''/work/proj''\<rparr>"
        faulting_env call_passed _ AdapterFault] configured_facts(2) p act k2 s2
    by blast
  from configured_facts(2) k1 first p k2 second show ?thesis by (intro conjI)
qed

theorem logreport_faults_counterexample:
  "pytest_runtest_logreport faulting_env configured_reporter call_passed = Inl AdapterFault
   \<and> pytest_runtest_logreport example_env configured_reporter call_failed_in_string
       = Inl ValueError"
proof -
  have a: "pytest_runtest_logreport faulting_env configured_reporter call_passed
      = Inl AdapterFault"
    by (simp add: pytest_runtest_logreport_def Let_def example_name pytest_configure_def
        ResultsReporter_def passed_def failed_def is_passing_def Test_def
        adapter_faulting_def)
  have m: "failure_message example_env call_failed_in_string = Inl ValueError"
    by (simp add: failure_message_def make_message_mixed is_abs_def)
  have b: "pytest_runtest_logreport example_env configured_reporter call_failed_in_string
      = Inl ValueError"
    by (simp add: pytest_runtest_logreport_def Let_def example_name pytest_configure_def
        ResultsReporter_def passed_def failed_def is_passing_def Test_def m)
  from a b show ?thesis by (intro conjI)
qed

section \<open>Properties of the end of the session\<close>

lemma fold_results_add:
  "fold results_add ts rs = rs\<lparr>run_tests := run_tests rs @ ts\<rparr>"
  by (induction ts arbitrary: rs) (simp_all add: results_add_def)

lemma ExitCode_value: "ExitCode (exit_code_value code) = Inr code"
  by (cases code) (simp_all add: ExitCode_def)

lemma unexpected_message_nonempty: "unexpected_message code \<noteq> []"
  by (simp add: unexpected_message_def)

text \<open>
  C7. For every exit code of the engine the session end returns and appends the test
  records in creation order; the tests-failed code gives the overall status
  testFailures; every other code except the clean one gives the overall status error,
  with the stored fallback message if there is one and otherwise the synthesized
  message, which is not empty and contains the name of the exit code; the clean code
  leaves the overall status and the error message as they were, hence ok for a fresh
  outcome.
\<close>

theorem sessionfinish_status:
  "\<exists>r'. pytest_sessionfinish r (exit_code_value code) = Inr r'
      \<and> run_tests (results r') = run_tests (results r) @ map snd (tests r)
      \<and> (code = TESTS_FAILED \<longrightarrow> overall_status (results r') = TestFailures)
      \<and> (code \<noteq> TESTS_FAILED \<and> code \<noteq> OK \<longrightarrow>
            overall_status (results r') = RunError
            \<and> error_message (results r')
                = Some (case last_err r of Some m \<Rightarrow> m | None \<Rightarrow> unexpected_message code)
            \<and> unexpected_message code \<noteq> []
            \<and> unexpected_message code
                = ''Unexpected ExitCode.'' @ exit_code_name code @ '': check logs for details'')
      \<and> (code = OK \<longrightarrow>
            overall_status (results r') = overall_status (results r)
            \<and> error_message (results r') = error_message (results r)
            \<and> (results r = Results \<longrightarrow> overall_status (results r') = Ok))"
  by (simp add: pytest_sessionfinish_def ExitCode_value Let_def fold_results_add
      results_fail_def results_error_def unexpected_message_def Results_def)

theorem sessionfinish_status_witness:
  "(\<exists>r'. pytest_sessionfinish configured_reporter (exit_code_value INTERNAL_ERROR) = Inr r'
      \<and> overall_status (results r') = RunError
      \<and> error_message (results r')
           = Some ''Unexpected ExitCode.INTERNAL_ERROR: check logs for details'')
   \<and> (\<exists>r'. pytest_sessionfinish (configured_reporter\<lparr>last_err := Some ''ImportError''\<rparr>)
              (exit_code_value INTERRUPTED) = Inr r'
      \<and> overall_status (results r') = RunError
      \<and> error_message (results r') = Some ''ImportError'')
   \<and> (\<exists>r'. pytest_sessionfinish configured_reporter (exit_code_value TESTS_FAILED) = Inr r'
      \<and> overall_status (results r') = TestFailures)
   \<and> (\<exists>r'. pytest_sessionfinish configured_reporter (exit_code_value OK) = Inr r'
      \<and> overall_status (results r') = Ok)"
proof -
  have a: "\<exists>r'. pytest_sessionfinish configured_reporter (exit_code_value INTERNAL_ERROR) = Inr r'
      \<and> overall_status (results r') = RunError
      \<and> error_message (results r')
           = Some ''Unexpected ExitCode.INTERNAL_ERROR: check logs for details''"
    using sessionfinish_status [of configured_reporter INTERNAL_ERROR]
    by (auto simp: pytest_configure_def ResultsReporter_def unexpected_message_def)
  have b: "\<exists>r'. pytest_sessionfinish (configured_reporter\<lparr>last_err := Some ''ImportError''\<rparr>)
              (exit_code_value INTERRUPTED) = Inr r'
      \<and> overall_status (results r') = RunError
      \<and> error_message (results r') = Some ''ImportError''"
    using sessionfinish_status [of "configured_reporter\<lparr>last_err := Some ''ImportError''\<rparr>"
        INTERRUPTED]
    by auto
  have c: "\<exists>r'. pytest_sessionfinish configured_reporter (exit_code_value TESTS_FAILED) = Inr r'
      \<and> overall_status (results r') = TestFailures"
    using sessionfinish_status [of configured_reporter TESTS_FAILED]
    by auto
  have d: "\<exists>r'. pytest_sessionfinish configured_reporter (exit_code_value OK) = Inr r'
      \<and> overall_status (results r') = Ok"
    using sessionfinish_status [of configured_reporter OK]
    by (auto simp: pytest_configure_def ResultsReporter_def)
  from a b c d show ?thesis by (intro conjI)
qed

section \<open>Properties of the run driver\<close>

text \<open>The join agrees with pathlib at the root, at the current directory and on
  segments that pathlib normalises.\<close>

lemma path_join_examples:
  "path_join ''/solution'' ''two_fer_test.py'' = ''/solution/two_fer_test.py''"
  "path_join ''/'' ''two_fer_test.py'' = ''/two_fer_test.py''"
  "path_join ''.'' ''two_fer_test.py'' = ''two_fer_test.py''"
  "path_join ''/in'' ''./a//b_test.py'' = ''/in/a/b_test.py''"
  "path_join ''/in'' ''/abs/t_test.py'' = ''/abs/t_test.py''"
  by (simp_all add: path_join_def posix_join_def path_str_def path_root_def components_def)

lemma config_test_files_absent_or_empty:
  "test_list_absent_or_empty config_data \<Longrightarrow>
   config_test_files indir (ParsedConfig config_data) = Inr []"
  by (auto simp: test_list_absent_or_empty_def config_test_files_def dict_get_def
      iterate_def split: json.splits option.splits)

lemma run_out_mode: "run slug indir outdir args cf = Inr plan \<Longrightarrow> out_mode plan = 664"
  by (auto simp: run_def Let_def split: sum.splits)

text \<open>
  C9. When the configuration file exists and parses to an object whose nested test-file
  list is absent or empty, the driver does what it does without a configuration file:
  the only test file is the input directory joined with the slug, dashes replaced by
  underscores, followed by \<open>_test.py\<close>.
\<close>

theorem run_default_test_file:
  assumes "test_list_absent_or_empty config_data"
  shows "run slug indir outdir args (ParsedConfig config_data)
           = run slug indir outdir args NoConfigFile
       \<and> run slug indir outdir args NoConfigFile
           = Inr \<lparr>engine_args =
                    sanitize_args (case args of None \<Rightarrow> [] | Some a \<Rightarrow> a)
                      @ [path_join indir (replace_str ''-'' ''_'' slug @ ''_test.py'')],
                  out_file = path_join outdir ''results.json'',
                  out_mode = 664\<rparr>"
proof -
  have none: "config_test_files indir NoConfigFile = Inr []"
    by (simp add: config_test_files_def)
  have args: "(case args of None \<Rightarrow> [] | Some a \<Rightarrow> if a = [] then [] else a)
      = (case args of None \<Rightarrow> [] | Some a \<Rightarrow> a)"
    by (simp split: option.splits)
  show ?thesis
    using config_test_files_absent_or_empty [OF assms, of indir] none args
    by (simp add: run_def Let_def default_test_file_def)
qed

theorem run_default_test_file_witness:
  "test_list_absent_or_empty
     (JObj [(''files'', JObj [(''solution'', JArr [JStr ''two_fer.py''])])])
   \<and> run ''two-fer'' ''/solution'' ''/output'' (Some [''-x''])
       (ParsedConfig (JObj [(''files'', JObj [(''solution'', JArr [JStr ''two_fer.py''])])]))
       = Inr \<lparr>engine_args = [''-x'', ''--tb=no'', ''/solution/two_fer_test.py''],
               out_file = ''/output/results.json'', out_mode = 664\<rparr>"
proof -
  have h: "test_list_absent_or_empty
     (JObj [(''files'', JObj [(''solution'', JArr [JStr ''two_fer.py''])])])"
    by (simp add: test_list_absent_or_empty_def)
  have v: "sanitize_args [''-x''] = [''-x'', ''--tb=no'']"
    by (simp add: sanitize_args_def)
  have n: "replace_str ''-'' ''_'' ''two-fer'' = ''two_fer''" by simp
  from h run_default_test_file [OF h, of "''two-fer''" "''/solution''" "''/output''"
      "Some [''-x'']"] v n
  show ?thesis
    by (simp add: path_join_def posix_join_def path_str_def path_root_def components_def)
qed

text \<open>
  C2. The mode the driver passes to \<open>chmod\<close> is the decimal number 664. Its bits are
  those of octal 1230: the sticky bit, write for the owner, write and execute for the
  group, nothing for others. Read and write for owner and group with read for others
  is octal 664, the decimal number 436.
\<close>

theorem run_chmod_mode:
  "run ''two-fer'' ''/solution'' ''/output'' (Some []) NoConfigFile
     = Inr \<lparr>engine_args = [''--tb=no'', ''/solution/two_fer_test.py''],
             out_file = ''/output/results.json'', out_mode = 664\<rparr>
   \<and> special_bits 664 = 1 \<and> owner_bits 664 = 2 \<and> group_bits 664 = 3 \<and> other_bits 664 = 0
   \<and> special_bits 436 = 0 \<and> owner_bits 436 = 6 \<and> group_bits 436 = 6 \<and> other_bits 436 = 4"
proof -
  have n: "replace_str ''-'' ''_'' ''two-fer'' = ''two_fer''" by simp
  have r: "run ''two-fer'' ''/solution'' ''/output'' (Some []) NoConfigFile
     = Inr \<lparr>engine_args = [''--tb=no'', ''/solution/two_fer_test.py''],
             out_file = ''/output/results.json'', out_mode = 664\<rparr>"
    by (simp add: run_def Let_def config_test_files_def default_test_file_def n
        sanitize_args_def path_join_def posix_join_def path_str_def path_root_def
        components_def)
  have b: "special_bits 664 = 1 \<and> owner_bits 664 = 2 \<and> group_bits 664 = 3
      \<and> other_bits 664 = 0"
    by (simp add: special_bits_def owner_bits_def group_bits_def other_bits_def)
  have o: "special_bits 436 = 0 \<and> owner_bits 436 = 6 \<and> group_bits 436 = 6
      \<and> other_bits 436 = 4"
    by (simp add: special_bits_def owner_bits_def group_bits_def other_bits_def)
  from r b o show ?thesis by blast
qed

end
